theory Spec2Isabelle
  imports Complex_Main
begin

section \<open>JavaScript values used by the audio package\<close>

text \<open>
  A JavaScript \<^verbatim>\<open>number\<close> held in a field is modelled as a real: the finite values
  with exact arithmetic. Rounding is outside the model. \<^verbatim>\<open>NaN\<close> and the infinities
  appear where an expression is written out over all numbers: the division of
  \<^verbatim>\<open>progress\<close> (\<open>js_div\<close>) and the value \<^verbatim>\<open>setPosition\<close> assigns
  (\<open>setPosition_stored\<close>).
\<close>

type_synonym number = real

text \<open>
  A thrown value is either an \<^verbatim>\<open>Error\<close> object (with its message) or some other
  value. Every catch block of the services computes
  \<^verbatim>\<open>error instanceof Error ? error : new Error(msg)\<close>.
\<close>

datatype JsError = JsError string

datatype thrown = ThrownError JsError | ThrownOther

definition toError :: "thrown \<Rightarrow> string \<Rightarrow> JsError" where
  "toError e msg = (case e of ThrownError err \<Rightarrow> err | ThrownOther \<Rightarrow> JsError msg)"

text \<open>\<^verbatim>\<open>x || d\<close> on numbers: \<^verbatim>\<open>0\<close> and \<^verbatim>\<open>undefined\<close> are falsy.\<close>

definition num_or :: "number \<Rightarrow> number \<Rightarrow> number" where
  "num_or x d = (if x = 0 then d else x)"

definition opt_num_or :: "number option \<Rightarrow> number \<Rightarrow> number" where
  "opt_num_or x d = (case x of None \<Rightarrow> d | Some v \<Rightarrow> num_or v d)"

text \<open>\<^verbatim>\<open>s || d\<close> on a \<^verbatim>\<open>string | null\<close>.\<close>

definition str_or :: "string option \<Rightarrow> string \<Rightarrow> string" where
  "str_or u d = (case u of None \<Rightarrow> d | Some v \<Rightarrow> if v = [] then d else v)"


section \<open>Domain types (AudioTypes.ts)\<close>

datatype AudioRecordingState =
  REC_IDLE | REC_PREPARING | REC_RECORDING | REC_PAUSED | REC_STOPPING | REC_STOPPED | REC_ERROR

datatype AudioPlaybackState =
  PB_IDLE | PB_LOADING | PB_READY | PB_PLAYING | PB_PAUSED | PB_STOPPED | PB_COMPLETED | PB_ERROR

datatype AudioQuality = LOW | MEDIUM | HIGH | MAX

datatype AudioFormat = FMT_AAC | FMT_MP3 | FMT_WAV | FMT_MPEG4

datatype AudioChannel = MONO | STEREO

datatype AudioBitRate = BPS_64K | BPS_128K | BPS_192K | BPS_256K | BPS_320K

datatype AudioSampleRate = HZ_8000 | HZ_16000 | HZ_22050 | HZ_44100 | HZ_48000

datatype AudioExtension = EXT_AAC | EXT_MP3 | EXT_WAV | EXT_M4A

record RecordingStatus =
  rs_durationMillis :: number
  rs_mediaDurationMillis :: "number option"
  rs_isRecording :: "bool option"
  rs_hasBeenRecorded :: "bool option"

record AudioRecordingConfig =
  quality :: AudioQuality
  format :: AudioFormat
  channel :: AudioChannel
  bitRate :: AudioBitRate
  sampleRate :: AudioSampleRate
  extension :: AudioExtension
  maxDurationSeconds :: "number option"

record AudioMetadata =
  md_uri :: string
  md_duration :: number
  md_size :: "number option"
  md_format :: "AudioFormat option"
  md_createdAt :: "nat option"
  md_modifiedAt :: "nat option"

record RecordingResult =
  rr_uri :: string
  rr_duration :: number
  rr_status :: AudioRecordingState


section \<open>The AudioRecording entity\<close>

text \<open>
  The private fields \<^verbatim>\<open>_state\<close>, \<^verbatim>\<open>_config\<close>, \<^verbatim>\<open>_uri\<close>, \<^verbatim>\<open>_duration\<close>,
  \<^verbatim>\<open>_error\<close>, \<^verbatim>\<open>_status\<close> of class \<^verbatim>\<open>AudioRecording\<close>.
\<close>

record AudioRecording =
  rec_state :: AudioRecordingState
  rec_config :: AudioRecordingConfig
  rec_uri :: "string option"
  rec_duration :: number
  rec_error :: "JsError option"
  rec_status :: "RecordingStatus option"

definition new_AudioRecording :: "AudioRecordingConfig \<Rightarrow> AudioRecording" where
  "new_AudioRecording cfg =
     \<lparr> rec_state = REC_IDLE, rec_config = cfg, rec_uri = None, rec_duration = 0,
       rec_error = None, rec_status = None \<rparr>"

definition AudioRecording_canRecord :: "AudioRecording \<Rightarrow> bool" where
  "AudioRecording_canRecord r = (rec_state r = REC_IDLE \<or> rec_state r = REC_STOPPED)"

definition AudioRecording_canPause :: "AudioRecording \<Rightarrow> bool" where
  "AudioRecording_canPause r = (rec_state r = REC_RECORDING)"

definition AudioRecording_canStop :: "AudioRecording \<Rightarrow> bool" where
  "AudioRecording_canStop r = (rec_state r = REC_RECORDING \<or> rec_state r = REC_PAUSED)"

definition AudioRecording_canResume :: "AudioRecording \<Rightarrow> bool" where
  "AudioRecording_canResume r = (rec_state r = REC_PAUSED)"

definition AudioRecording_setState :: "AudioRecordingState \<Rightarrow> AudioRecording \<Rightarrow> AudioRecording" where
  "AudioRecording_setState st r = r\<lparr>rec_state := st\<rparr>"

definition AudioRecording_setUri :: "string \<Rightarrow> AudioRecording \<Rightarrow> AudioRecording" where
  "AudioRecording_setUri u r = r\<lparr>rec_uri := Some u\<rparr>"

definition AudioRecording_setDuration :: "number \<Rightarrow> AudioRecording \<Rightarrow> AudioRecording" where
  "AudioRecording_setDuration d r = r\<lparr>rec_duration := d\<rparr>"

definition AudioRecording_setError :: "JsError \<Rightarrow> AudioRecording \<Rightarrow> AudioRecording" where
  "AudioRecording_setError e r = r\<lparr>rec_error := Some e, rec_state := REC_ERROR\<rparr>"

definition AudioRecording_setStatus :: "RecordingStatus \<Rightarrow> AudioRecording \<Rightarrow> AudioRecording" where
  "AudioRecording_setStatus st r = r\<lparr>rec_status := Some st\<rparr>"

definition AudioRecording_clearError :: "AudioRecording \<Rightarrow> AudioRecording" where
  "AudioRecording_clearError r = r\<lparr>rec_error := None\<rparr>"

definition AudioRecording_reset :: "AudioRecording \<Rightarrow> AudioRecording" where
  "AudioRecording_reset r =
     r\<lparr>rec_state := REC_IDLE, rec_uri := None, rec_duration := 0, rec_error := None,
       rec_status := None\<rparr>"

text \<open>
  \<^verbatim>\<open>toResult\<close> and \<^verbatim>\<open>toMetadata\<close> are methods of a mutable object: they are
  modelled in state-passing style, returning the outcome (the thrown error or the
  value) together with the entity after the call. The guard is \<^verbatim>\<open>!this._uri\<close>:
  \<^verbatim>\<open>null\<close> and the empty string are both falsy.
  \<^verbatim>\<open>new Date()\<close> is the parameter \<open>now\<close>.
\<close>

definition AudioRecording_toResult :: "AudioRecording \<Rightarrow> (JsError + RecordingResult) \<times> AudioRecording" where
  "AudioRecording_toResult r =
     (case rec_uri r of
        None \<Rightarrow> (Inl (JsError ''No recording URI available''), r)
      | Some u \<Rightarrow>
          if u = [] then (Inl (JsError ''No recording URI available''), r)
          else (Inr \<lparr> rr_uri = u, rr_duration = rec_duration r, rr_status = rec_state r \<rparr>, r))"

definition AudioRecording_toMetadata :: "nat \<Rightarrow> AudioRecording \<Rightarrow> (JsError + AudioMetadata) \<times> AudioRecording" where
  "AudioRecording_toMetadata now r =
     (case rec_uri r of
        None \<Rightarrow> (Inl (JsError ''No recording URI available''), r)
      | Some u \<Rightarrow>
          if u = [] then (Inl (JsError ''No recording URI available''), r)
          else (Inr \<lparr> md_uri = u, md_duration = rec_duration r, md_size = None,
                       md_format = Some (format (rec_config r)), md_createdAt = Some now,
                       md_modifiedAt = Some now \<rparr>, r))"

definition AudioRecording_fromMetadata :: "AudioMetadata \<Rightarrow> AudioRecordingConfig \<Rightarrow> AudioRecording" where
  "AudioRecording_fromMetadata m cfg =
     (new_AudioRecording cfg)\<lparr>rec_uri := Some (md_uri m), rec_duration := md_duration m,
       rec_state := REC_STOPPED\<rparr>"


section \<open>The recording coordinator (class AudioRecordingService, instance variant)\<close>

text \<open>
  The native recorder of expo-av is outside the repository. \<^verbatim>\<open>if (status.uri)\<close> is
  a truthiness test: it fails for \<^verbatim>\<open>null\<close> and for the empty string. Each native call the
  coordinator awaits has its outcome as a parameter of the operation: \<open>Inl e\<close> when the
  call throws \<open>e\<close>, \<open>Inr v\<close> when it resolves to \<open>v\<close>. A native handle is the identity of
  an \<^verbatim>\<open>Audio.Recording\<close> object; \<open>rec_fresh\<close> numbers the objects created so far and
  \<open>rec_calls\<close> records, oldest first, the native calls the coordinator has issued.

  An operation runs to its end before the next one starts: the interleaving of two
  operations at an \<^verbatim>\<open>await\<close> is not modelled. The configuration passed to
  \<^verbatim>\<open>prepare\<close> is only handed on to \<^verbatim>\<open>prepareToRecordAsync\<close>, whose outcome is a
  parameter, so it is left out. The 500 ms timer that \<^verbatim>\<open>start\<close> arms
  (\<^verbatim>\<open>startStatusUpdate\<close>) is not tracked; its callback is \<open>RecordingService_tick\<close>.
\<close>

record AVRecordingStatus =
  av_canRecord :: bool
  av_isRecording :: bool
  av_isDoneRecording :: bool
  av_durationMillis :: number
  av_uri :: "string option"

datatype rec_call =
  NewRecording nat
  | PrepareToRecordAsync nat
  | StartAsync nat
  | GetStatusAsync nat
  | PauseAsync nat
  | StopAndUnloadAsync nat

record RecordingService =
  recordingInstance :: "nat option"
  recording :: AudioRecording
  rec_calls :: "rec_call list"
  rec_fresh :: nat

definition new_RecordingService :: "AudioRecording \<Rightarrow> RecordingService" where
  "new_RecordingService r =
     \<lparr> recordingInstance = None, recording = r, rec_calls = [], rec_fresh = 0 \<rparr>"

definition rec_log :: "rec_call \<Rightarrow> RecordingService \<Rightarrow> RecordingService" where
  "rec_log c s = s\<lparr>rec_calls := rec_calls s @ [c]\<rparr>"

definition rec_entity :: "(AudioRecording \<Rightarrow> AudioRecording) \<Rightarrow> RecordingService \<Rightarrow> RecordingService" where
  "rec_entity f s = s\<lparr>recording := f (recording s)\<rparr>"

text \<open>
  The catch block shared by prepare, start, pause, stop and cancel: the thrown value
  is turned into an \<^verbatim>\<open>Error\<close>, stored with \<^verbatim>\<open>setError\<close>, and thrown again.
  The first component is what the \<^verbatim>\<open>try\<close> body did: \<open>Inl e\<close> when it threw \<open>e\<close>.
\<close>

definition rec_catch :: "string \<Rightarrow> (thrown + 'a) \<times> RecordingService \<Rightarrow> (JsError + 'a) \<times> RecordingService" where
  "rec_catch msg body =
     (case body of
        (Inl e, s) \<Rightarrow> (Inl (toError e msg), rec_entity (AudioRecording_setError (toError e msg)) s)
      | (Inr v, s) \<Rightarrow> (Inr v, s))"

definition RecordingService_prepare :: "RecordingService \<Rightarrow> thrown + unit \<Rightarrow> (JsError + unit) \<times> RecordingService" where
  "RecordingService_prepare s native_prepare =
     rec_catch ''Failed to prepare recording''
       (let s1 = rec_entity (AudioRecording_setState REC_PREPARING) s;
            h = rec_fresh s1;
            s2 = rec_log (NewRecording h) (s1\<lparr>recordingInstance := Some h, rec_fresh := Suc h\<rparr>);
            s3 = rec_log (PrepareToRecordAsync h) s2
        in case native_prepare of
             Inl e \<Rightarrow> (Inl e, s3)
           | Inr u \<Rightarrow> (Inr (), rec_entity (AudioRecording_setState REC_IDLE) s3))"

definition RecordingService_start ::
  "RecordingService \<Rightarrow> thrown + unit \<Rightarrow> thrown + AVRecordingStatus \<Rightarrow> (JsError + string) \<times> RecordingService" where
  "RecordingService_start s native_start native_status =
     rec_catch ''Failed to start recording''
       (case recordingInstance s of
          None \<Rightarrow> (Inl (ThrownError (JsError ''Recording not prepared. Call prepare() first.'')), s)
        | Some h \<Rightarrow>
            (let s1 = rec_log (StartAsync h) (rec_entity (AudioRecording_setState REC_RECORDING) s)
             in case native_start of
                  Inl e \<Rightarrow> (Inl e, s1)
                | Inr u \<Rightarrow>
                    (let s2 = rec_log (GetStatusAsync h) s1
                     in case native_status of
                          Inl e \<Rightarrow> (Inl e, s2)
                        | Inr st \<Rightarrow>
                            (let s3 = rec_entity (AudioRecording_setDuration (num_or (av_durationMillis st) 0)) s2;
                                 s4 = (case av_uri st of
                                         None \<Rightarrow> s3
                                       | Some u \<Rightarrow>
                                           if u = [] then s3
                                           else rec_entity (AudioRecording_setUri u) s3)
                             in (Inr (str_or (av_uri st) []), s4)))))"

definition RecordingService_pause :: "RecordingService \<Rightarrow> thrown + unit \<Rightarrow> (JsError + unit) \<times> RecordingService" where
  "RecordingService_pause s native_pause =
     rec_catch ''Failed to pause recording''
       (case recordingInstance s of
          None \<Rightarrow> (Inl (ThrownError (JsError ''Cannot pause recording'')), s)
        | Some h \<Rightarrow>
            if \<not> AudioRecording_canPause (recording s)
            then (Inl (ThrownError (JsError ''Cannot pause recording'')), s)
            else
              (let s1 = rec_log (PauseAsync h) (rec_entity (AudioRecording_setState REC_PAUSED) s)
               in case native_pause of
                    Inl e \<Rightarrow> (Inl e, s1)
                  | Inr u \<Rightarrow> (Inr (), s1)))"

definition RecordingService_stop :: "RecordingService \<Rightarrow> thrown + AVRecordingStatus \<Rightarrow> (JsError + unit) \<times> RecordingService" where
  "RecordingService_stop s native_stop =
     rec_catch ''Failed to stop recording''
       (case recordingInstance s of
          None \<Rightarrow> (Inl (ThrownError (JsError ''Cannot stop recording'')), s)
        | Some h \<Rightarrow>
            if \<not> AudioRecording_canStop (recording s)
            then (Inl (ThrownError (JsError ''Cannot stop recording'')), s)
            else
              (let s1 = rec_log (StopAndUnloadAsync h) (rec_entity (AudioRecording_setState REC_STOPPING) s)
               in case native_stop of
                    Inl e \<Rightarrow> (Inl e, s1)
                  | Inr st \<Rightarrow>
                      (let s2 = (case av_uri st of
                                   None \<Rightarrow> s1
                                 | Some u \<Rightarrow>
                                     if u = [] then s1
                                     else rec_entity (AudioRecording_setUri u) s1);
                           s3 = rec_entity (AudioRecording_setDuration (num_or (av_durationMillis st) 0)) s2;
                           s4 = rec_entity (AudioRecording_setState REC_STOPPED) s3
                       in (Inr (), s4\<lparr>recordingInstance := None\<rparr>))))"

definition RecordingService_cancel :: "RecordingService \<Rightarrow> thrown + AVRecordingStatus \<Rightarrow> (JsError + unit) \<times> RecordingService" where
  "RecordingService_cancel s native_stop =
     rec_catch ''Failed to cancel recording''
       (case recordingInstance s of
          None \<Rightarrow> (Inr (), rec_entity AudioRecording_reset s)
        | Some h \<Rightarrow>
            (let s1 = rec_log (StopAndUnloadAsync h) s
             in case native_stop of
                  Inl e \<Rightarrow> (Inl e, s1)
                | Inr st \<Rightarrow> (Inr (), rec_entity AudioRecording_reset (s1\<lparr>recordingInstance := None\<rparr>))))"

text \<open>
  \<^verbatim>\<open>dispose\<close> clears the timer kept on the handle, drops the handle without a native
  call and resets the entity. It has no failing path.
\<close>

definition RecordingService_dispose :: "RecordingService \<Rightarrow> RecordingService" where
  "RecordingService_dispose s = rec_entity AudioRecording_reset (s\<lparr>recordingInstance := None\<rparr>)"

text \<open>
  One firing of the 500 ms interval callback of \<^verbatim>\<open>startStatusUpdate\<close>. The callback
  reads only \<^verbatim>\<open>this.recordingInstance\<close>; what it does to its own timer
  (\<^verbatim>\<open>clearInterval\<close>) is the second component: \<open>True\<close> when the timer is cleared.
\<close>

definition RecordingService_tick :: "RecordingService \<Rightarrow> thrown + AVRecordingStatus \<Rightarrow> RecordingService \<times> bool" where
  "RecordingService_tick s native_status =
     (case recordingInstance s of
        None \<Rightarrow> (s, True)
      | Some h \<Rightarrow>
          (let s1 = rec_log (GetStatusAsync h) s
           in case native_status of
                Inl e \<Rightarrow> (s1, True)
              | Inr st \<Rightarrow>
                  (let s2 = rec_entity (AudioRecording_setStatus
                              \<lparr> rs_durationMillis = num_or (av_durationMillis st) 0,
                                rs_mediaDurationMillis = None, rs_isRecording = None,
                                rs_hasBeenRecorded = None \<rparr>) s1;
                       s3 = rec_entity (AudioRecording_setDuration (num_or (av_durationMillis st) 0)) s2
                   in (s3, \<not> av_isRecording st))))"

text \<open>The default configuration of AudioConstants.ts (the MEDIUM preset).\<close>

definition DEFAULT_RECORDING_CONFIG :: AudioRecordingConfig where
  "DEFAULT_RECORDING_CONFIG =
     \<lparr> quality = MEDIUM, format = FMT_AAC, channel = MONO, bitRate = BPS_128K,
       sampleRate = HZ_44100, extension = EXT_AAC, maxDurationSeconds = None \<rparr>"

text \<open>
  Sequences of coordinator operations. An operation carries the outcomes of the native
  calls it may await. A poll tick is allowed at any point of a sequence: the timers
  of the recording coordinator are not tracked, which can only enlarge the set of
  reachable sessions.
\<close>

datatype rec_op =
  Prepare "thrown + unit"
  | Start "thrown + unit" "thrown + AVRecordingStatus"
  | Pause "thrown + unit"
  | Stop "thrown + AVRecordingStatus"
  | Cancel "thrown + AVRecordingStatus"
  | Dispose
  | Tick "thrown + AVRecordingStatus"

fun rec_step :: "RecordingService \<Rightarrow> rec_op \<Rightarrow> RecordingService" where
  "rec_step s (Prepare n) = snd (RecordingService_prepare s n)"
| "rec_step s (Start n st) = snd (RecordingService_start s n st)"
| "rec_step s (Pause n) = snd (RecordingService_pause s n)"
| "rec_step s (Stop st) = snd (RecordingService_stop s st)"
| "rec_step s (Cancel st) = snd (RecordingService_cancel s st)"
| "rec_step s Dispose = RecordingService_dispose s"
| "rec_step s (Tick st) = fst (RecordingService_tick s st)"

definition rec_run :: "AudioRecordingConfig \<Rightarrow> rec_op list \<Rightarrow> RecordingService" where
  "rec_run cfg ops = foldl rec_step (new_RecordingService (new_AudioRecording cfg)) ops"



section \<open>The AudioPlayback entity\<close>

record AudioPlaybackOptions =
  shouldPlay :: bool
  volume :: number
  isLooping :: bool
  isMuted :: bool
  playbackRate :: number
  progressUpdateIntervalMillis :: number
  positionUpdateIntervalMillis :: number

record PlaybackStatus =
  ps_didJustFinish :: bool
  ps_durationMillis :: number
  ps_isBuffering :: bool
  ps_isLoaded :: bool
  ps_isLooping :: bool
  ps_isPlaying :: bool
  ps_isMuted :: bool
  ps_positionMillis :: number
  ps_playbackRate :: number
  ps_volume :: number

record PlaybackResult =
  pr_uri :: string
  pr_duration :: number
  pr_position :: number
  pr_status :: AudioPlaybackState

definition DEFAULT_PLAYBACK_OPTIONS :: AudioPlaybackOptions where
  "DEFAULT_PLAYBACK_OPTIONS =
     \<lparr> shouldPlay = False, volume = 1, isLooping = False, isMuted = False, playbackRate = 1,
       progressUpdateIntervalMillis = 500, positionUpdateIntervalMillis = 500 \<rparr>"

text \<open>The ranges \<^verbatim>\<open>VOLUME\<close> and \<^verbatim>\<open>PLAYBACK_RATE\<close> of AudioConstants.ts.\<close>

definition VOLUME_MIN :: number where "VOLUME_MIN = 0"
definition VOLUME_MAX :: number where "VOLUME_MAX = 1"
definition PLAYBACK_RATE_MIN :: number where "PLAYBACK_RATE_MIN = 1 / 2"
definition PLAYBACK_RATE_MAX :: number where "PLAYBACK_RATE_MAX = 2"

text \<open>The fields \<^verbatim>\<open>_state\<close>, \<^verbatim>\<open>_uri\<close>, \<^verbatim>\<open>_options\<close>, \<^verbatim>\<open>_duration\<close>,
  \<^verbatim>\<open>_position\<close>, \<^verbatim>\<open>_error\<close>, \<^verbatim>\<open>_status\<close> of class \<^verbatim>\<open>AudioPlayback\<close>.\<close>

record AudioPlayback =
  pb_state :: AudioPlaybackState
  pb_uri :: "string option"
  pb_options :: AudioPlaybackOptions
  pb_duration :: number
  pb_position :: number
  pb_error :: "JsError option"
  pb_status :: "PlaybackStatus option"

definition new_AudioPlayback :: "AudioPlaybackOptions \<Rightarrow> AudioPlayback" where
  "new_AudioPlayback opts =
     \<lparr> pb_state = PB_IDLE, pb_uri = None, pb_options = opts, pb_duration = 0, pb_position = 0,
       pb_error = None, pb_status = None \<rparr>"

definition AudioPlayback_isLooping :: "AudioPlayback \<Rightarrow> bool" where
  "AudioPlayback_isLooping p = isLooping (pb_options p)"

definition AudioPlayback_canPlay :: "AudioPlayback \<Rightarrow> bool" where
  "AudioPlayback_canPlay p =
     (pb_uri p \<noteq> None \<and>
      (pb_state p = PB_IDLE \<or> pb_state p = PB_READY \<or> pb_state p = PB_PAUSED \<or>
       pb_state p = PB_STOPPED \<or> pb_state p = PB_COMPLETED))"

definition AudioPlayback_canPause :: "AudioPlayback \<Rightarrow> bool" where
  "AudioPlayback_canPause p = (pb_state p = PB_PLAYING)"

definition AudioPlayback_canStop :: "AudioPlayback \<Rightarrow> bool" where
  "AudioPlayback_canStop p =
     (pb_state p = PB_PLAYING \<or> pb_state p = PB_PAUSED \<or> pb_state p = PB_LOADING)"

definition AudioPlayback_canSeek :: "AudioPlayback \<Rightarrow> bool" where
  "AudioPlayback_canSeek p =
     (pb_uri p \<noteq> None \<and>
      (pb_state p = PB_READY \<or> pb_state p = PB_PLAYING \<or> pb_state p = PB_PAUSED \<or>
       pb_state p = PB_STOPPED \<or> pb_state p = PB_COMPLETED))"

text \<open>
  The result of a JavaScript division of two finite numbers: HOL's \<open>x / 0\<close> is \<open>0\<close>,
  JavaScript's is \<^verbatim>\<open>NaN\<close> or an infinity, so the quotient is written out.
\<close>

datatype jsnum = Finite number | NaN | PosInfinity | NegInfinity

definition js_div :: "number \<Rightarrow> number \<Rightarrow> jsnum" where
  "js_div x y =
     (if y \<noteq> 0 then Finite (x / y)
      else if x = 0 then NaN
      else if 0 < x then PosInfinity
      else NegInfinity)"

definition AudioPlayback_progress :: "AudioPlayback \<Rightarrow> jsnum" where
  "AudioPlayback_progress p =
     (if pb_duration p = 0 then Finite 0 else js_div (pb_position p) (pb_duration p))"

definition AudioPlayback_setState :: "AudioPlaybackState \<Rightarrow> AudioPlayback \<Rightarrow> AudioPlayback" where
  "AudioPlayback_setState st p = p\<lparr>pb_state := st\<rparr>"

definition AudioPlayback_setUri :: "string \<Rightarrow> AudioPlayback \<Rightarrow> AudioPlayback" where
  "AudioPlayback_setUri u p = p\<lparr>pb_uri := Some u\<rparr>"

definition AudioPlayback_setDuration :: "number \<Rightarrow> AudioPlayback \<Rightarrow> AudioPlayback" where
  "AudioPlayback_setDuration d p = p\<lparr>pb_duration := d\<rparr>"

definition AudioPlayback_setPosition :: "number \<Rightarrow> AudioPlayback \<Rightarrow> AudioPlayback" where
  "AudioPlayback_setPosition pos p = p\<lparr>pb_position := max 0 (min pos (pb_duration p))\<rparr>"

definition AudioPlayback_setVolume :: "number \<Rightarrow> AudioPlayback \<Rightarrow> AudioPlayback" where
  "AudioPlayback_setVolume v p = p\<lparr>pb_options := (pb_options p)\<lparr>volume := v\<rparr>\<rparr>"

definition AudioPlayback_setPlaybackRate :: "number \<Rightarrow> AudioPlayback \<Rightarrow> AudioPlayback" where
  "AudioPlayback_setPlaybackRate r p = p\<lparr>pb_options := (pb_options p)\<lparr>playbackRate := r\<rparr>\<rparr>"

definition AudioPlayback_setLooping :: "bool \<Rightarrow> AudioPlayback \<Rightarrow> AudioPlayback" where
  "AudioPlayback_setLooping b p = p\<lparr>pb_options := (pb_options p)\<lparr>isLooping := b\<rparr>\<rparr>"

definition AudioPlayback_setMuted :: "bool \<Rightarrow> AudioPlayback \<Rightarrow> AudioPlayback" where
  "AudioPlayback_setMuted b p = p\<lparr>pb_options := (pb_options p)\<lparr>isMuted := b\<rparr>\<rparr>"

definition AudioPlayback_setError :: "JsError \<Rightarrow> AudioPlayback \<Rightarrow> AudioPlayback" where
  "AudioPlayback_setError e p = p\<lparr>pb_error := Some e, pb_state := PB_ERROR\<rparr>"

definition AudioPlayback_setStatus :: "PlaybackStatus \<Rightarrow> AudioPlayback \<Rightarrow> AudioPlayback" where
  "AudioPlayback_setStatus st p = p\<lparr>pb_status := Some st\<rparr>"

definition AudioPlayback_reset :: "AudioPlayback \<Rightarrow> AudioPlayback" where
  "AudioPlayback_reset p =
     p\<lparr>pb_state := PB_IDLE, pb_uri := None, pb_duration := 0, pb_position := 0,
       pb_error := None, pb_status := None\<rparr>"

text \<open>
  The value \<^verbatim>\<open>setPosition\<close> assigns, over all JavaScript numbers. The entity above keeps
  finite numbers only; \<^verbatim>\<open>Math.max(0, Math.min(position, this._duration))\<close> is written
  out here with the library's behaviour on \<^verbatim>\<open>NaN\<close> and the infinities: \<^verbatim>\<open>Math.min\<close>
  and \<^verbatim>\<open>Math.max\<close> return \<^verbatim>\<open>NaN\<close> as soon as an argument is \<^verbatim>\<open>NaN\<close>, and
  \<^verbatim>\<open>a <= b\<close> is false when either side is \<^verbatim>\<open>NaN\<close>. (The sign of zero is not modelled.)
\<close>

fun js_le :: "jsnum \<Rightarrow> jsnum \<Rightarrow> bool" where
  "js_le NaN b = False"
| "js_le a NaN = False"
| "js_le NegInfinity b = True"
| "js_le a PosInfinity = True"
| "js_le (Finite x) (Finite y) = (x \<le> y)"
| "js_le PosInfinity b = False"
| "js_le a NegInfinity = False"

definition Math_min :: "jsnum \<Rightarrow> jsnum \<Rightarrow> jsnum" where
  "Math_min a b = (if a = NaN \<or> b = NaN then NaN else if js_le a b then a else b)"

definition Math_max :: "jsnum \<Rightarrow> jsnum \<Rightarrow> jsnum" where
  "Math_max a b = (if a = NaN \<or> b = NaN then NaN else if js_le a b then b else a)"

definition setPosition_stored :: "jsnum \<Rightarrow> jsnum \<Rightarrow> jsnum" where
  "setPosition_stored position duration = Math_max (Finite 0) (Math_min position duration)"


section \<open>The playback coordinator (class AudioPlaybackService, instance variant)\<close>

text \<open>
  The status a native sound reports (expo-av's \<^verbatim>\<open>AVPlaybackStatus\<close>): either not
  loaded, with an optional error text, or loaded with the fields below.
  \<^verbatim>\<open>durationMillis\<close> is optional there.
\<close>

record AVPlaybackStatusSuccess =
  avp_isPlaying :: bool
  avp_isBuffering :: bool
  avp_isMuted :: bool
  avp_isLooping :: bool
  avp_shouldPlay :: bool
  avp_didJustFinish :: bool
  avp_volume :: number
  avp_rate :: number
  avp_positionMillis :: number
  avp_durationMillis :: "number option"

datatype AVPlaybackStatus = NotLoaded "string option" | Loaded AVPlaybackStatusSuccess

datatype sound_call =
  CreateAsync string
  | SoundGetStatusAsync nat
  | PlayAsync nat
  | SoundPauseAsync nat
  | StopAsync nat
  | SetPositionAsync nat number
  | SetVolumeAsync nat number
  | SetRateAsync nat number bool
  | SetIsLoopingAsync nat bool
  | SetIsMutedAsync nat bool
  | UnloadAsync nat

text \<open>
  \<open>statusUpdateInterval\<close> is the field of the class: the identity of the timer that
  \<^verbatim>\<open>setInterval\<close> returned, or \<^verbatim>\<open>null\<close>. \<open>pb_timers\<close> are the timers that are armed
  (set and not yet cleared), \<open>pb_fresh\<close> numbers the sounds and timers created so far,
  \<open>pb_calls\<close> records the native calls, oldest first.
\<close>

record PlaybackService =
  soundInstance :: "nat option"
  playback :: AudioPlayback
  statusUpdateInterval :: "nat option"
  pb_calls :: "sound_call list"
  pb_timers :: "nat list"
  pb_fresh :: nat

definition new_PlaybackService :: "AudioPlayback \<Rightarrow> PlaybackService" where
  "new_PlaybackService p =
     \<lparr> soundInstance = None, playback = p, statusUpdateInterval = None, pb_calls = [],
       pb_timers = [], pb_fresh = 0 \<rparr>"

definition pb_log :: "sound_call \<Rightarrow> PlaybackService \<Rightarrow> PlaybackService" where
  "pb_log c s = s\<lparr>pb_calls := pb_calls s @ [c]\<rparr>"

definition pb_entity :: "(AudioPlayback \<Rightarrow> AudioPlayback) \<Rightarrow> PlaybackService \<Rightarrow> PlaybackService" where
  "pb_entity f s = s\<lparr>playback := f (playback s)\<rparr>"

definition pb_catch :: "string \<Rightarrow> (thrown + 'a) \<times> PlaybackService \<Rightarrow> (JsError + 'a) \<times> PlaybackService" where
  "pb_catch msg body =
     (case body of
        (Inl e, s) \<Rightarrow> (Inl (toError e msg), pb_entity (AudioPlayback_setError (toError e msg)) s)
      | (Inr v, s) \<Rightarrow> (Inr v, s))"

definition PlaybackService_stopStatusUpdate :: "PlaybackService \<Rightarrow> PlaybackService" where
  "PlaybackService_stopStatusUpdate s =
     (case statusUpdateInterval s of
        None \<Rightarrow> s
      | Some t \<Rightarrow> s\<lparr>pb_timers := removeAll t (pb_timers s), statusUpdateInterval := None\<rparr>)"

definition PlaybackService_startStatusUpdate :: "PlaybackService \<Rightarrow> PlaybackService" where
  "PlaybackService_startStatusUpdate s =
     (case soundInstance s of
        None \<Rightarrow> s
      | Some h \<Rightarrow>
          s\<lparr>statusUpdateInterval := Some (pb_fresh s), pb_timers := pb_timers s @ [pb_fresh s],
            pb_fresh := Suc (pb_fresh s)\<rparr>)"

text \<open>One firing of the interval callback of \<^verbatim>\<open>startStatusUpdate\<close>.\<close>

definition PlaybackService_tick :: "PlaybackService \<Rightarrow> thrown + AVPlaybackStatus \<Rightarrow> PlaybackService" where
  "PlaybackService_tick s native_status =
     (case soundInstance s of
        None \<Rightarrow> PlaybackService_stopStatusUpdate s
      | Some h \<Rightarrow>
          (let s1 = pb_log (SoundGetStatusAsync h) s
           in case native_status of
                Inl e \<Rightarrow> PlaybackService_stopStatusUpdate s1
              | Inr (NotLoaded err) \<Rightarrow> PlaybackService_stopStatusUpdate s1
              | Inr (Loaded st) \<Rightarrow>
                  (let playbackStatus =
                         \<lparr> ps_didJustFinish = avp_didJustFinish st,
                           ps_durationMillis = opt_num_or (avp_durationMillis st) 0,
                           ps_isBuffering = avp_isBuffering st,
                           ps_isLoaded = True,
                           ps_isLooping = avp_isLooping st,
                           ps_isPlaying = avp_isPlaying st,
                           ps_isMuted = avp_isMuted st,
                           ps_positionMillis = num_or (avp_positionMillis st) 0,
                           ps_playbackRate = avp_rate st,
                           ps_volume = avp_volume st \<rparr>;
                       s2 = pb_entity (AudioPlayback_setStatus playbackStatus) s1;
                       s3 = pb_entity (AudioPlayback_setDuration (opt_num_or (avp_durationMillis st) 0)) s2;
                       s4 = pb_entity (AudioPlayback_setPosition (num_or (avp_positionMillis st) 0)) s3
                   in if avp_didJustFinish st \<and> \<not> AudioPlayback_isLooping (playback s4)
                      then PlaybackService_stopStatusUpdate
                             (pb_entity (AudioPlayback_setState PB_COMPLETED) s4)
                      else s4)))"

definition PlaybackService_unload :: "PlaybackService \<Rightarrow> thrown + unit \<Rightarrow> (JsError + unit) \<times> PlaybackService" where
  "PlaybackService_unload s native_unload =
     pb_catch ''Failed to unload audio''
       (case soundInstance s of
          None \<Rightarrow> (Inr (), pb_entity AudioPlayback_reset (PlaybackService_stopStatusUpdate s))
        | Some h \<Rightarrow>
            (let s1 = pb_log (UnloadAsync h) s
             in case native_unload of
                  Inl e \<Rightarrow> (Inl e, s1)
                | Inr u \<Rightarrow>
                    (Inr (), pb_entity AudioPlayback_reset
                               (PlaybackService_stopStatusUpdate (s1\<lparr>soundInstance := None\<rparr>)))))"

text \<open>
  \<^verbatim>\<open>load\<close> awaits up to three native calls: the unload of the sound already held (inside
  \<^verbatim>\<open>this.unload()\<close>, which has a catch block of its own and throws again), the creation of
  the new sound, and the first status query.
\<close>

definition PlaybackService_load ::
  "PlaybackService \<Rightarrow> string \<Rightarrow> thrown + unit \<Rightarrow> thrown + unit \<Rightarrow> thrown + AVPlaybackStatus
     \<Rightarrow> (JsError + unit) \<times> PlaybackService" where
  "PlaybackService_load s uri native_unload native_create native_status =
     pb_catch ''Failed to load audio''
       (let s1 = pb_entity (AudioPlayback_setState PB_LOADING) s;
            unloaded = (case soundInstance s1 of
                          None \<Rightarrow> (Inr (), s1)
                        | Some h \<Rightarrow> PlaybackService_unload s1 native_unload)
        in case unloaded of
             (Inl err, s2) \<Rightarrow> (Inl (ThrownError err), s2)
           | (Inr u, s2) \<Rightarrow>
               (let s3 = pb_log (CreateAsync uri) s2
                in case native_create of
                     Inl e \<Rightarrow> (Inl e, s3)
                   | Inr u \<Rightarrow>
                       (let s4 = pb_entity (AudioPlayback_setUri uri)
                                   (s3\<lparr>soundInstance := Some (pb_fresh s3), pb_fresh := Suc (pb_fresh s3)\<rparr>);
                            s5 = pb_log (SoundGetStatusAsync (pb_fresh s3)) s4
                        in case native_status of
                             Inl e \<Rightarrow> (Inl e, s5)
                           | Inr (NotLoaded err) \<Rightarrow> (Inr (), PlaybackService_startStatusUpdate s5)
                           | Inr (Loaded st) \<Rightarrow>
                               (let s6 = pb_entity (AudioPlayback_setDuration (opt_num_or (avp_durationMillis st) 0)) s5;
                                    s7 = pb_entity (AudioPlayback_setPosition (num_or (avp_positionMillis st) 0)) s6;
                                    s8 = pb_entity (AudioPlayback_setState PB_READY) s7
                                in (Inr (), PlaybackService_startStatusUpdate s8)))))"

definition PlaybackService_play :: "PlaybackService \<Rightarrow> thrown + unit \<Rightarrow> (JsError + unit) \<times> PlaybackService" where
  "PlaybackService_play s native_play =
     pb_catch ''Failed to play audio''
       (case soundInstance s of
          None \<Rightarrow> (Inl (ThrownError (JsError ''Cannot play audio'')), s)
        | Some h \<Rightarrow>
            if \<not> AudioPlayback_canPlay (playback s)
            then (Inl (ThrownError (JsError ''Cannot play audio'')), s)
            else
              (let s1 = pb_log (PlayAsync h) (pb_entity (AudioPlayback_setState PB_PLAYING) s)
               in case native_play of Inl e \<Rightarrow> (Inl e, s1) | Inr u \<Rightarrow> (Inr (), s1)))"

definition PlaybackService_pause :: "PlaybackService \<Rightarrow> thrown + unit \<Rightarrow> (JsError + unit) \<times> PlaybackService" where
  "PlaybackService_pause s native_pause =
     pb_catch ''Failed to pause audio''
       (case soundInstance s of
          None \<Rightarrow> (Inl (ThrownError (JsError ''Cannot pause audio'')), s)
        | Some h \<Rightarrow>
            if \<not> AudioPlayback_canPause (playback s)
            then (Inl (ThrownError (JsError ''Cannot pause audio'')), s)
            else
              (let s1 = pb_log (SoundPauseAsync h) (pb_entity (AudioPlayback_setState PB_PAUSED) s)
               in case native_pause of Inl e \<Rightarrow> (Inl e, s1) | Inr u \<Rightarrow> (Inr (), s1)))"

definition PlaybackService_stop :: "PlaybackService \<Rightarrow> thrown + unit \<Rightarrow> (JsError + unit) \<times> PlaybackService" where
  "PlaybackService_stop s native_stop =
     pb_catch ''Failed to stop audio''
       (case soundInstance s of
          None \<Rightarrow> (Inl (ThrownError (JsError ''Cannot stop audio'')), s)
        | Some h \<Rightarrow>
            if \<not> AudioPlayback_canStop (playback s)
            then (Inl (ThrownError (JsError ''Cannot stop audio'')), s)
            else
              (let s1 = pb_log (StopAsync h) (pb_entity (AudioPlayback_setState PB_STOPPED) s)
               in case native_stop of
                    Inl e \<Rightarrow> (Inl e, s1)
                  | Inr u \<Rightarrow> (Inr (), pb_entity (AudioPlayback_setPosition 0) s1)))"

definition PlaybackService_seek :: "PlaybackService \<Rightarrow> number \<Rightarrow> thrown + unit \<Rightarrow> (JsError + unit) \<times> PlaybackService" where
  "PlaybackService_seek s pos native_seek =
     pb_catch ''Failed to seek audio''
       (case soundInstance s of
          None \<Rightarrow> (Inl (ThrownError (JsError ''Cannot seek audio'')), s)
        | Some h \<Rightarrow>
            if \<not> AudioPlayback_canSeek (playback s)
            then (Inl (ThrownError (JsError ''Cannot seek audio'')), s)
            else
              (let s1 = pb_log (SetPositionAsync h pos) s
               in case native_seek of
                    Inl e \<Rightarrow> (Inl e, s1)
                  | Inr u \<Rightarrow> (Inr (), pb_entity (AudioPlayback_setPosition pos) s1)))"

definition PlaybackService_setVolume :: "PlaybackService \<Rightarrow> number \<Rightarrow> thrown + unit \<Rightarrow> (JsError + unit) \<times> PlaybackService" where
  "PlaybackService_setVolume s v native_set =
     pb_catch ''Failed to set volume''
       (case soundInstance s of
          None \<Rightarrow> (Inl (ThrownError (JsError ''No sound loaded'')), s)
        | Some h \<Rightarrow>
            (let s1 = pb_log (SetVolumeAsync h v) s
             in case native_set of
                  Inl e \<Rightarrow> (Inl e, s1)
                | Inr u \<Rightarrow> (Inr (), pb_entity (AudioPlayback_setVolume v) s1)))"

definition PlaybackService_setPlaybackRate ::
  "PlaybackService \<Rightarrow> number \<Rightarrow> bool \<Rightarrow> thrown + unit \<Rightarrow> (JsError + unit) \<times> PlaybackService" where
  "PlaybackService_setPlaybackRate s r shouldCorrectPitch native_set =
     pb_catch ''Failed to set playback rate''
       (case soundInstance s of
          None \<Rightarrow> (Inl (ThrownError (JsError ''No sound loaded'')), s)
        | Some h \<Rightarrow>
            (let s1 = pb_log (SetRateAsync h r shouldCorrectPitch) s
             in case native_set of
                  Inl e \<Rightarrow> (Inl e, s1)
                | Inr u \<Rightarrow> (Inr (), pb_entity (AudioPlayback_setPlaybackRate r) s1)))"

definition PlaybackService_setLooping :: "PlaybackService \<Rightarrow> bool \<Rightarrow> thrown + unit \<Rightarrow> (JsError + unit) \<times> PlaybackService" where
  "PlaybackService_setLooping s b native_set =
     pb_catch ''Failed to set looping''
       (case soundInstance s of
          None \<Rightarrow> (Inl (ThrownError (JsError ''No sound loaded'')), s)
        | Some h \<Rightarrow>
            (let s1 = pb_log (SetIsLoopingAsync h b) s
             in case native_set of
                  Inl e \<Rightarrow> (Inl e, s1)
                | Inr u \<Rightarrow> (Inr (), pb_entity (AudioPlayback_setLooping b) s1)))"

definition PlaybackService_setMuted :: "PlaybackService \<Rightarrow> bool \<Rightarrow> thrown + unit \<Rightarrow> (JsError + unit) \<times> PlaybackService" where
  "PlaybackService_setMuted s b native_set =
     pb_catch ''Failed to set muted''
       (case soundInstance s of
          None \<Rightarrow> (Inl (ThrownError (JsError ''No sound loaded'')), s)
        | Some h \<Rightarrow>
            (let s1 = pb_log (SetIsMutedAsync h b) s
             in case native_set of
                  Inl e \<Rightarrow> (Inl e, s1)
                | Inr u \<Rightarrow> (Inr (), pb_entity (AudioPlayback_setMuted b) s1)))"

definition PlaybackService_dispose :: "PlaybackService \<Rightarrow> PlaybackService" where
  "PlaybackService_dispose s =
     pb_entity AudioPlayback_reset ((PlaybackService_stopStatusUpdate s)\<lparr>soundInstance := None\<rparr>)"

text \<open>
  Sequences of playback operations, each with the outcomes of its native calls. A poll
  tick fires only while a timer is armed.
\<close>

datatype pb_op =
  Load string "thrown + unit" "thrown + unit" "thrown + AVPlaybackStatus"
  | Play "thrown + unit"
  | PausePlayback "thrown + unit"
  | StopPlayback "thrown + unit"
  | Seek number "thrown + unit"
  | SetVolume number "thrown + unit"
  | SetPlaybackRate number bool "thrown + unit"
  | SetLooping bool "thrown + unit"
  | SetMuted bool "thrown + unit"
  | Unload "thrown + unit"
  | DisposePlayback
  | TickPlayback "thrown + AVPlaybackStatus"

fun pb_step :: "PlaybackService \<Rightarrow> pb_op \<Rightarrow> PlaybackService" where
  "pb_step s (Load uri nu nc ns) = snd (PlaybackService_load s uri nu nc ns)"
| "pb_step s (Play n) = snd (PlaybackService_play s n)"
| "pb_step s (PausePlayback n) = snd (PlaybackService_pause s n)"
| "pb_step s (StopPlayback n) = snd (PlaybackService_stop s n)"
| "pb_step s (Seek pos n) = snd (PlaybackService_seek s pos n)"
| "pb_step s (SetVolume v n) = snd (PlaybackService_setVolume s v n)"
| "pb_step s (SetPlaybackRate r c n) = snd (PlaybackService_setPlaybackRate s r c n)"
| "pb_step s (SetLooping b n) = snd (PlaybackService_setLooping s b n)"
| "pb_step s (SetMuted b n) = snd (PlaybackService_setMuted s b n)"
| "pb_step s (Unload n) = snd (PlaybackService_unload s n)"
| "pb_step s DisposePlayback = PlaybackService_dispose s"
| "pb_step s (TickPlayback ns) = (if pb_timers s = [] then s else PlaybackService_tick s ns)"

definition pb_run :: "AudioPlaybackOptions \<Rightarrow> pb_op list \<Rightarrow> PlaybackService" where
  "pb_run opts ops = foldl pb_step (new_PlaybackService (new_AudioPlayback opts)) ops"

text \<open>The documented ranges, as predicates on the options and on an operation's argument.\<close>

definition options_in_range :: "AudioPlaybackOptions \<Rightarrow> bool" where
  "options_in_range opts =
     (VOLUME_MIN \<le> volume opts \<and> volume opts \<le> VOLUME_MAX \<and>
      PLAYBACK_RATE_MIN \<le> playbackRate opts \<and> playbackRate opts \<le> PLAYBACK_RATE_MAX)"

fun argument_in_range :: "pb_op \<Rightarrow> bool" where
  "argument_in_range (SetVolume v n) = (VOLUME_MIN \<le> v \<and> v \<le> VOLUME_MAX)"
| "argument_in_range (SetPlaybackRate r c n) = (PLAYBACK_RATE_MIN \<le> r \<and> r \<le> PLAYBACK_RATE_MAX)"
| "argument_in_range other = True"


section \<open>The static services (Audio.ts variant)\<close>

text \<open>
  A \<^verbatim>\<open>try { body } catch (error) { handler }\<close> whose body either throws or returns.
\<close>

definition try_catch :: "thrown + 'a \<Rightarrow> (thrown \<Rightarrow> thrown + 'a) \<Rightarrow> thrown + 'a" where
  "try_catch body handler = (case body of Inl e \<Rightarrow> handler e | Inr v \<Rightarrow> Inr v)"

record PlaybackState =
  st_isLoaded :: bool
  st_isPlaying :: bool
  st_isBuffering :: bool
  st_isMuted :: bool
  st_volume :: number
  st_rate :: number
  st_shouldPlay :: bool
  st_positionMillis :: number
  st_durationMillis :: number
  st_didJustFinish :: bool
  st_error :: "string option"

definition mapStatusToState :: "AVPlaybackStatus \<Rightarrow> PlaybackState option" where
  "mapStatusToState status =
     (case status of
        NotLoaded err \<Rightarrow>
          Some \<lparr> st_isLoaded = False, st_isPlaying = False, st_isBuffering = False,
                 st_isMuted = False, st_volume = 0, st_rate = 1, st_shouldPlay = False,
                 st_positionMillis = 0, st_durationMillis = 0, st_didJustFinish = False,
                 st_error = err \<rparr>
      | Loaded st \<Rightarrow>
          Some \<lparr> st_isLoaded = True, st_isPlaying = avp_isPlaying st,
                 st_isBuffering = avp_isBuffering st, st_isMuted = avp_isMuted st,
                 st_volume = avp_volume st, st_rate = avp_rate st,
                 st_shouldPlay = avp_shouldPlay st, st_positionMillis = avp_positionMillis st,
                 st_durationMillis = opt_num_or (avp_durationMillis st) 0,
                 st_didJustFinish = avp_didJustFinish st, st_error = None \<rparr>)"

text \<open>
  \<^verbatim>\<open>getStatus\<close> reads the static field \<^verbatim>\<open>sound\<close> (the first argument) and awaits
  \<^verbatim>\<open>getStatusAsync\<close> (its outcome is the second). The result is \<open>Inl\<close> when the
  method throws to its caller.
\<close>

definition StaticPlaybackService_getStatus ::
  "nat option \<Rightarrow> thrown + AVPlaybackStatus \<Rightarrow> thrown + PlaybackState option" where
  "StaticPlaybackService_getStatus sound native_status =
     try_catch
       (case sound of
          None \<Rightarrow> Inr None
        | Some h \<Rightarrow>
            (case native_status of
               Inl e \<Rightarrow> Inl e
             | Inr status \<Rightarrow> Inr (mapStatusToState status)))
       (\<lambda>error. Inr None)"

datatype AudioPermission = GRANTED | DENIED | UNDETERMINED

text \<open>The native permission status is compared as a string.\<close>

definition mapPermissionStatus :: "string \<Rightarrow> AudioPermission" where
  "mapPermissionStatus status =
     (if status = ''granted'' then GRANTED
      else if status = ''denied'' then DENIED
      else UNDETERMINED)"

definition StaticRecordingService_getPermissionStatus :: "thrown + string \<Rightarrow> thrown + AudioPermission" where
  "StaticRecordingService_getPermissionStatus native_permissions =
     try_catch
       (case native_permissions of
          Inl e \<Rightarrow> Inl e
        | Inr status \<Rightarrow> Inr (mapPermissionStatus status))
       (\<lambda>error. Inr DENIED)"


section \<open>Duration formatting (audio.utils.ts)\<close>

text \<open>
  \<^verbatim>\<open>Number.prototype.toString\<close> on an integer: its decimal digits, with a leading
  minus sign for a negative one (integers of magnitude \<open>10^21\<close> and more print in
  exponent notation and are outside this model).
\<close>

definition digit_char :: "nat \<Rightarrow> char" where
  "digit_char d =
     (if d = 0 then CHR ''0'' else if d = 1 then CHR ''1'' else if d = 2 then CHR ''2''
      else if d = 3 then CHR ''3'' else if d = 4 then CHR ''4'' else if d = 5 then CHR ''5''
      else if d = 6 then CHR ''6'' else if d = 7 then CHR ''7'' else if d = 8 then CHR ''8''
      else CHR ''9'')"

fun nat_digits :: "nat \<Rightarrow> string" where
  "nat_digits n = (if n < 10 then [digit_char n] else nat_digits (n div 10) @ [digit_char (n mod 10)])"

declare nat_digits.simps [simp del]

definition Number_toString :: "int \<Rightarrow> string" where
  "Number_toString n = (if n < 0 then CHR ''-'' # nat_digits (nat (- n)) else nat_digits (nat n))"

definition padStart :: "nat \<Rightarrow> char \<Rightarrow> string \<Rightarrow> string" where
  "padStart n c s = replicate (n - length s) c @ s"

text \<open>
  The remainder operator \<^verbatim>\<open>%\<close> on integers, for a non-zero divisor: the result has
  the sign of the dividend.
\<close>

definition js_rem :: "int \<Rightarrow> int \<Rightarrow> int" where
  "js_rem a b = (if a < 0 then - ((- a) mod \<bar>b\<bar>) else a mod \<bar>b\<bar>)"

definition formatDuration :: "number \<Rightarrow> string" where
  "formatDuration milliseconds =
     (let totalSeconds = floor (milliseconds / 1000);
          minutes = totalSeconds div 60;
          seconds = js_rem totalSeconds 60
      in padStart 2 CHR ''0'' (Number_toString minutes) @ '':'' @
         padStart 2 CHR ''0'' (Number_toString seconds))"

definition formatDurationLong :: "number \<Rightarrow> string" where
  "formatDurationLong milliseconds =
     (let totalSeconds = floor (milliseconds / 1000);
          hours = totalSeconds div 3600;
          minutes = js_rem totalSeconds 3600 div 60;
          seconds = js_rem totalSeconds 60
      in if hours > 0
         then padStart 2 CHR ''0'' (Number_toString hours) @ '':'' @
              padStart 2 CHR ''0'' (Number_toString minutes) @ '':'' @
              padStart 2 CHR ''0'' (Number_toString seconds)
         else padStart 2 CHR ''0'' (Number_toString minutes) @ '':'' @
              padStart 2 CHR ''0'' (Number_toString seconds))"

text \<open>
  The layout the documentation names: a number below 100 as two decimal digits, a
  larger one with all its digits.
\<close>

definition two_digits :: "nat \<Rightarrow> string" where
  "two_digits n = (if n < 100 then [digit_char (n div 10), digit_char (n mod 10)] else nat_digits n)"


section \<open>Concrete inputs\<close>

text \<open>A native recorder status that carries the uri of the take.\<close>

definition take_status :: AVRecordingStatus where
  "take_status =
     \<lparr> av_canRecord = True, av_isRecording = True, av_isDoneRecording = False,
       av_durationMillis = 0, av_uri = Some ''file:///take.m4a'' \<rparr>"

text \<open>A loaded sound of ten seconds at its start, and the same sound as it finishes.\<close>

definition loaded_status :: AVPlaybackStatusSuccess where
  "loaded_status =
     \<lparr> avp_isPlaying = False, avp_isBuffering = False, avp_isMuted = False,
       avp_isLooping = False, avp_shouldPlay = False, avp_didJustFinish = False,
       avp_volume = 1, avp_rate = 1, avp_positionMillis = 0, avp_durationMillis = Some 10000 \<rparr>"

definition finished_status :: AVPlaybackStatusSuccess where
  "finished_status = loaded_status\<lparr>avp_didJustFinish := True, avp_positionMillis := 10000\<rparr>"


section \<open>Evaluation rules\<close>

lemma rec_catch_simps:
  "rec_catch msg (Inl e, s) =
     (Inl (toError e msg), rec_entity (AudioRecording_setError (toError e msg)) s)"
  "rec_catch msg (Inr v, s) = (Inr v, s)"
  by (simp_all add: rec_catch_def)

lemma pb_catch_simps:
  "pb_catch msg (Inl e, s) =
     (Inl (toError e msg), pb_entity (AudioPlayback_setError (toError e msg)) s)"
  "pb_catch msg (Inr v, s) = (Inr v, s)"
  by (simp_all add: pb_catch_def)

lemmas rec_defs = rec_catch_simps Let_def rec_entity_def rec_log_def toError_def
  AudioRecording_setState_def AudioRecording_setError_def AudioRecording_setUri_def
  AudioRecording_setDuration_def AudioRecording_canPause_def AudioRecording_canStop_def
  AudioRecording_reset_def AudioRecording_setStatus_def

lemmas rec_ops = RecordingService_prepare_def RecordingService_start_def
  RecordingService_pause_def RecordingService_stop_def RecordingService_cancel_def
  RecordingService_dispose_def RecordingService_tick_def

lemmas rec_eval = rec_run_def new_RecordingService_def new_AudioRecording_def rec_ops rec_defs
  num_or_def str_or_def take_status_def

lemmas pb_defs = pb_catch_simps pb_entity_def pb_log_def toError_def Let_def
  AudioPlayback_setState_def AudioPlayback_setError_def AudioPlayback_setUri_def
  AudioPlayback_setDuration_def AudioPlayback_setPosition_def AudioPlayback_setStatus_def
  AudioPlayback_setVolume_def AudioPlayback_setPlaybackRate_def AudioPlayback_setLooping_def
  AudioPlayback_setMuted_def AudioPlayback_reset_def AudioPlayback_isLooping_def
  AudioPlayback_canPlay_def AudioPlayback_canPause_def AudioPlayback_canStop_def
  AudioPlayback_canSeek_def
  PlaybackService_stopStatusUpdate_def PlaybackService_startStatusUpdate_def

lemmas pb_ops = PlaybackService_load_def PlaybackService_unload_def PlaybackService_play_def
  PlaybackService_pause_def PlaybackService_stop_def PlaybackService_seek_def
  PlaybackService_setVolume_def PlaybackService_setPlaybackRate_def
  PlaybackService_setLooping_def PlaybackService_setMuted_def PlaybackService_dispose_def
  PlaybackService_tick_def

lemmas pb_eval = pb_run_def new_PlaybackService_def new_AudioPlayback_def pb_ops pb_defs
  num_or_def opt_num_or_def loaded_status_def finished_status_def DEFAULT_PLAYBACK_OPTIONS_def
  options_in_range_def VOLUME_MIN_def VOLUME_MAX_def PLAYBACK_RATE_MIN_def PLAYBACK_RATE_MAX_def


lemma pb_run_snoc: "pb_run opts (ops @ [op]) = pb_step (pb_run opts ops) op"
  by (simp add: pb_run_def)



section \<open>The recording coordinator: pause\<close>

text \<open>
  Claim C1, as the code has it. \<^verbatim>\<open>pause()\<close> returns normally only when a handle is held,
  the session is Recording and the native pause resolves; the session is then Paused.
  Called in any other state it throws \<^verbatim>\<open>Cannot pause recording\<close>, and because the
  guard stands inside the \<^verbatim>\<open>try\<close> block the catch block stores that error and
  sets the session state to Error. A failure of the native pause call also ends in
  Error.
\<close>

theorem pause_outside_recording_sets_error:
  "(fst (RecordingService_pause s n) = Inr () \<longrightarrow>
      rec_state (recording s) = REC_RECORDING \<and> recordingInstance s \<noteq> None \<and> n = Inr ()
      \<and> rec_state (recording (snd (RecordingService_pause s n))) = REC_PAUSED)
   \<and> (rec_state (recording s) \<noteq> REC_RECORDING \<longrightarrow>
      fst (RecordingService_pause s n) = Inl (JsError ''Cannot pause recording'')
      \<and> rec_state (recording (snd (RecordingService_pause s n))) = REC_ERROR
      \<and> rec_error (recording (snd (RecordingService_pause s n)))
          = Some (JsError ''Cannot pause recording''))
   \<and> (n = Inl e \<longrightarrow>
      (\<exists>err. fst (RecordingService_pause s n) = Inl err)
      \<and> rec_state (recording (snd (RecordingService_pause s n))) = REC_ERROR)
   \<and> (rec_state (recording s) = REC_RECORDING \<and> recordingInstance s \<noteq> None \<and> n = Inr () \<longrightarrow>
      fst (RecordingService_pause s n) = Inr ()
      \<and> rec_state (recording (snd (RecordingService_pause s n))) = REC_PAUSED)"
  by (auto simp: RecordingService_pause_def rec_defs split: option.splits sum.splits if_splits)

text \<open>
  The theorem at a prepared Idle session, and at a Recording session with a native
  pause that resolves and one that throws.
\<close>

theorem pause_outside_recording_sets_error_witness:
  "rec_state (recording (rec_run DEFAULT_RECORDING_CONFIG [Prepare (Inr ())])) \<noteq> REC_RECORDING
   \<and> fst (RecordingService_pause (rec_run DEFAULT_RECORDING_CONFIG [Prepare (Inr ())]) (Inr ()))
       = Inl (JsError ''Cannot pause recording'')
   \<and> rec_state (recording (snd (RecordingService_pause
        (rec_run DEFAULT_RECORDING_CONFIG [Prepare (Inr ())]) (Inr ())))) = REC_ERROR
   \<and> rec_state (recording (rec_run DEFAULT_RECORDING_CONFIG
        [Prepare (Inr ()), Start (Inr ()) (Inr take_status)])) = REC_RECORDING
   \<and> fst (RecordingService_pause (rec_run DEFAULT_RECORDING_CONFIG
        [Prepare (Inr ()), Start (Inr ()) (Inr take_status)]) (Inr ())) = Inr ()
   \<and> rec_state (recording (snd (RecordingService_pause (rec_run DEFAULT_RECORDING_CONFIG
        [Prepare (Inr ()), Start (Inr ()) (Inr take_status)]) (Inr ())))) = REC_PAUSED
   \<and> rec_state (recording (snd (RecordingService_pause (rec_run DEFAULT_RECORDING_CONFIG
        [Prepare (Inr ()), Start (Inr ()) (Inr take_status)]) (Inl ThrownOther)))) = REC_ERROR"
proof -
  let ?idle = "rec_run DEFAULT_RECORDING_CONFIG [Prepare (Inr ())]"
  let ?busy = "rec_run DEFAULT_RECORDING_CONFIG [Prepare (Inr ()), Start (Inr ()) (Inr take_status)]"
  have idle: "rec_state (recording ?idle) \<noteq> REC_RECORDING"
    by (simp add: rec_eval)
  have busy: "rec_state (recording ?busy) = REC_RECORDING"
    by (simp add: rec_eval)
  have held: "recordingInstance ?busy \<noteq> None"
    by (simp add: rec_eval)
  have a: "fst (RecordingService_pause ?idle (Inr ())) = Inl (JsError ''Cannot pause recording'')
      \<and> rec_state (recording (snd (RecordingService_pause ?idle (Inr ())))) = REC_ERROR"
    using idle pause_outside_recording_sets_error [where s = ?idle and n = "Inr ()"] by blast
  have b: "fst (RecordingService_pause ?busy (Inr ())) = Inr ()
      \<and> rec_state (recording (snd (RecordingService_pause ?busy (Inr ())))) = REC_PAUSED"
    using busy held pause_outside_recording_sets_error [where s = ?busy and n = "Inr ()"] by blast
  have c: "rec_state (recording (snd (RecordingService_pause ?busy (Inl ThrownOther)))) = REC_ERROR"
    using pause_outside_recording_sets_error
      [where s = ?busy and n = "Inl ThrownOther" and e = ThrownOther] by blast
  from idle busy a b c show ?thesis by blast
qed

text \<open>
  The claim as written fails: a prepared session is Idle, \<^verbatim>\<open>pause()\<close> throws there,
  and the session state afterwards is Error, not Idle.
\<close>

theorem pause_state_unchanged_counterexample:
  "rec_state (recording (rec_run DEFAULT_RECORDING_CONFIG [Prepare (Inr ())])) = REC_IDLE
   \<and> fst (RecordingService_pause (rec_run DEFAULT_RECORDING_CONFIG [Prepare (Inr ())]) (Inr ()))
       = Inl (JsError ''Cannot pause recording'')
   \<and> rec_state (recording (snd (RecordingService_pause
        (rec_run DEFAULT_RECORDING_CONFIG [Prepare (Inr ())]) (Inr ())))) = REC_ERROR"
  by (simp add: rec_eval)


section \<open>The recording coordinator: where the uri comes from\<close>










section \<open>One native handle per coordinator\<close>

text \<open>
  The playback half of the rule: when a sound is held, \<^verbatim>\<open>load\<close> first issues
  \<^verbatim>\<open>unloadAsync\<close> on it; if that call does not resolve, nothing else is issued and the
  old handle stays.
\<close>

lemma load_unloads_first:
  assumes "soundInstance s = Some h"
  shows "\<exists>rest. pb_calls (snd (PlaybackService_load s uri nu nc ns))
            = pb_calls s @ UnloadAsync h # rest
     \<and> (nu \<noteq> Inr () \<longrightarrow>
           rest = [] \<and> soundInstance (snd (PlaybackService_load s uri nu nc ns)) = Some h)"
  using assms
  by (auto simp: pb_ops pb_defs split: option.splits sum.splits if_splits AVPlaybackStatus.splits)

text \<open>
  The recording half: \<^verbatim>\<open>prepare\<close> issues exactly the creation of a new recorder and its
  \<^verbatim>\<open>prepareToRecordAsync\<close>, whatever handle is held, and then holds the new one.
\<close>

lemma prepare_issues_no_teardown:
  "rec_calls (snd (RecordingService_prepare s n)) =
     rec_calls s @ [NewRecording (rec_fresh s), PrepareToRecordAsync (rec_fresh s)]
   \<and> recordingInstance (snd (RecordingService_prepare s n)) = Some (rec_fresh s)"
  by (auto simp: rec_ops rec_defs split: sum.splits)

text \<open>
  Claim C3 at two calls of \<^verbatim>\<open>prepare()\<close> in a row: the coordinator ends up holding
  recorder 1, and recorder 0 was never stopped and unloaded.
\<close>

theorem prepare_twice_no_teardown:
  "recordingInstance (rec_run DEFAULT_RECORDING_CONFIG [Prepare (Inr ()), Prepare (Inr ())]) = Some 1
   \<and> rec_calls (rec_run DEFAULT_RECORDING_CONFIG [Prepare (Inr ()), Prepare (Inr ())])
       = [NewRecording 0, PrepareToRecordAsync 0, NewRecording 1, PrepareToRecordAsync 1]
   \<and> StopAndUnloadAsync 0 \<notin>
       set (rec_calls (rec_run DEFAULT_RECORDING_CONFIG [Prepare (Inr ()), Prepare (Inr ())]))"
  by (simp add: rec_eval)


section \<open>The playback coordinator: completion on a poll tick\<close>

text \<open>
  Claim C4. The coordinator holds a sound, its poll loop runs on timer \<open>t\<close>, and the
  native status of the tick reports \<^verbatim>\<open>didJustFinish\<close>. With looping off in the
  session's options the session becomes Completed and the timer is cleared; with
  looping on the session state and the timer stay as they are.
\<close>

theorem tick_completion:
  assumes "soundInstance s = Some h" and "statusUpdateInterval s = Some t"
    and "avp_didJustFinish st"
  shows "(\<not> isLooping (pb_options (playback s)) \<longrightarrow>
            pb_state (playback (PlaybackService_tick s (Inr (Loaded st)))) = PB_COMPLETED
            \<and> statusUpdateInterval (PlaybackService_tick s (Inr (Loaded st))) = None
            \<and> t \<notin> set (pb_timers (PlaybackService_tick s (Inr (Loaded st)))))
       \<and> (isLooping (pb_options (playback s)) \<longrightarrow>
            pb_state (playback (PlaybackService_tick s (Inr (Loaded st)))) = pb_state (playback s)
            \<and> statusUpdateInterval (PlaybackService_tick s (Inr (Loaded st))) = Some t
            \<and> pb_timers (PlaybackService_tick s (Inr (Loaded st))) = pb_timers s)"
  using assms by (simp add: PlaybackService_tick_def pb_defs)

text \<open>
  The theorem after a load with the default options (looping off), and after a load
  followed by \<^verbatim>\<open>setLooping(true)\<close>: sound 0, timer 1.
\<close>

theorem tick_completion_witness:
  "soundInstance (pb_run DEFAULT_PLAYBACK_OPTIONS
      [Load ''a.mp3'' (Inr ()) (Inr ()) (Inr (Loaded loaded_status))]) = Some 0
   \<and> statusUpdateInterval (pb_run DEFAULT_PLAYBACK_OPTIONS
      [Load ''a.mp3'' (Inr ()) (Inr ()) (Inr (Loaded loaded_status))]) = Some 1
   \<and> avp_didJustFinish finished_status
   \<and> pb_state (playback (PlaybackService_tick (pb_run DEFAULT_PLAYBACK_OPTIONS
      [Load ''a.mp3'' (Inr ()) (Inr ()) (Inr (Loaded loaded_status))])
        (Inr (Loaded finished_status)))) = PB_COMPLETED
   \<and> statusUpdateInterval (PlaybackService_tick (pb_run DEFAULT_PLAYBACK_OPTIONS
      [Load ''a.mp3'' (Inr ()) (Inr ()) (Inr (Loaded loaded_status))])
        (Inr (Loaded finished_status))) = None
   \<and> pb_state (playback (PlaybackService_tick (pb_run DEFAULT_PLAYBACK_OPTIONS
      [Load ''a.mp3'' (Inr ()) (Inr ()) (Inr (Loaded loaded_status)), SetLooping True (Inr ())])
        (Inr (Loaded finished_status)))) = PB_READY
   \<and> statusUpdateInterval (PlaybackService_tick (pb_run DEFAULT_PLAYBACK_OPTIONS
      [Load ''a.mp3'' (Inr ()) (Inr ()) (Inr (Loaded loaded_status)), SetLooping True (Inr ())])
        (Inr (Loaded finished_status))) = Some 1"
proof -
  let ?once = "pb_run DEFAULT_PLAYBACK_OPTIONS
      [Load ''a.mp3'' (Inr ()) (Inr ()) (Inr (Loaded loaded_status))]"
  let ?loop = "pb_run DEFAULT_PLAYBACK_OPTIONS
      [Load ''a.mp3'' (Inr ()) (Inr ()) (Inr (Loaded loaded_status)), SetLooping True (Inr ())]"
  have s1: "soundInstance ?once = Some 0" and t1: "statusUpdateInterval ?once = Some 1"
    and l1: "\<not> isLooping (pb_options (playback ?once))"
    by (simp_all add: pb_eval)
  have s2: "soundInstance ?loop = Some 0" and t2: "statusUpdateInterval ?loop = Some 1"
    and l2: "isLooping (pb_options (playback ?loop))"
    and r2: "pb_state (playback ?loop) = PB_READY"
    by (simp_all add: pb_eval)
  have f: "avp_didJustFinish finished_status"
    by (simp add: finished_status_def)
  have a: "pb_state (playback (PlaybackService_tick ?once (Inr (Loaded finished_status)))) = PB_COMPLETED
      \<and> statusUpdateInterval (PlaybackService_tick ?once (Inr (Loaded finished_status))) = None"
    using tick_completion[OF s1 t1 f] l1 by blast
  have b: "pb_state (playback (PlaybackService_tick ?loop (Inr (Loaded finished_status)))) = PB_READY
      \<and> statusUpdateInterval (PlaybackService_tick ?loop (Inr (Loaded finished_status))) = Some 1"
    using tick_completion[OF s2 t2 f] l2 r2 by simp
  from s1 t1 f a b show ?thesis by blast
qed


section \<open>The playback coordinator: the ranges of volume and rate\<close>

lemma pb_step_options:
  "argument_in_range op \<Longrightarrow> options_in_range (pb_options (playback s)) \<Longrightarrow>
   options_in_range (pb_options (playback (pb_step s op)))"
  by (cases op)
     (auto simp: pb_ops pb_defs options_in_range_def
           split: option.splits sum.splits if_splits AVPlaybackStatus.splits)

text \<open>
  Claim C5, as the code has it. \<^verbatim>\<open>setVolume\<close> and \<^verbatim>\<open>setPlaybackRate\<close> store their
  argument as it is given once the native setter resolves; no operation clamps. So the
  ranges of \<open>options.volume\<close> and \<open>options.playbackRate\<close> hold after a sequence of
  operations when they hold for the initial options and for every argument of
  \<^verbatim>\<open>setVolume\<close> and \<^verbatim>\<open>setPlaybackRate\<close> in the sequence.
\<close>

theorem options_stay_in_range:
  assumes "options_in_range opts" and "list_all argument_in_range ops"
  shows "options_in_range (pb_options (playback (pb_run opts ops)))"
  using assms(2)
proof (induction ops rule: rev_induct)
  case Nil
  show ?case
    using assms(1) by (simp add: pb_run_def new_PlaybackService_def new_AudioPlayback_def)
next
  case (snoc op ops)
  then show ?case unfolding pb_run_snoc by (simp add: pb_step_options)
qed

text \<open>The theorem at a load followed by \<^verbatim>\<open>setVolume(0.25)\<close> and \<^verbatim>\<open>setPlaybackRate(2)\<close>.\<close>

theorem options_stay_in_range_witness:
  "options_in_range DEFAULT_PLAYBACK_OPTIONS
   \<and> list_all argument_in_range
        [Load ''a.mp3'' (Inr ()) (Inr ()) (Inr (Loaded loaded_status)), SetVolume (1/4) (Inr ()),
         SetPlaybackRate 2 False (Inr ())]
   \<and> options_in_range (pb_options (playback (pb_run DEFAULT_PLAYBACK_OPTIONS
        [Load ''a.mp3'' (Inr ()) (Inr ()) (Inr (Loaded loaded_status)), SetVolume (1/4) (Inr ()),
         SetPlaybackRate 2 False (Inr ())])))
   \<and> volume (pb_options (playback (pb_run DEFAULT_PLAYBACK_OPTIONS
        [Load ''a.mp3'' (Inr ()) (Inr ()) (Inr (Loaded loaded_status)), SetVolume (1/4) (Inr ()),
         SetPlaybackRate 2 False (Inr ())]))) = 1/4"
proof -
  have a: "options_in_range DEFAULT_PLAYBACK_OPTIONS"
    by (simp add: pb_eval)
  have b: "list_all argument_in_range
        [Load ''a.mp3'' (Inr ()) (Inr ()) (Inr (Loaded loaded_status)), SetVolume (1/4) (Inr ()),
         SetPlaybackRate 2 False (Inr ())]"
    by (simp add: VOLUME_MIN_def VOLUME_MAX_def PLAYBACK_RATE_MIN_def PLAYBACK_RATE_MAX_def)
  have c: "volume (pb_options (playback (pb_run DEFAULT_PLAYBACK_OPTIONS
        [Load ''a.mp3'' (Inr ()) (Inr ()) (Inr (Loaded loaded_status)), SetVolume (1/4) (Inr ()),
         SetPlaybackRate 2 False (Inr ())]))) = 1/4"
    by (simp add: pb_eval)
  from options_stay_in_range[OF a b] a b c show ?thesis by blast
qed

text \<open>
  The claim as written fails: from the default options, a load and then
  \<^verbatim>\<open>setPlaybackRate(3)\<close> with a native setter that resolves leave the rate at 3, and
  \<^verbatim>\<open>setVolume(1.5)\<close> likewise leaves the volume at 1.5.
\<close>

theorem options_range_counterexample:
  "options_in_range DEFAULT_PLAYBACK_OPTIONS
   \<and> playbackRate (pb_options (playback (pb_run DEFAULT_PLAYBACK_OPTIONS
        [Load ''a.mp3'' (Inr ()) (Inr ()) (Inr (Loaded loaded_status)),
         SetPlaybackRate 3 False (Inr ())]))) = 3
   \<and> \<not> options_in_range (pb_options (playback (pb_run DEFAULT_PLAYBACK_OPTIONS
        [Load ''a.mp3'' (Inr ()) (Inr ()) (Inr (Loaded loaded_status)),
         SetPlaybackRate 3 False (Inr ())])))
   \<and> volume (pb_options (playback (pb_run DEFAULT_PLAYBACK_OPTIONS
        [Load ''a.mp3'' (Inr ()) (Inr ()) (Inr (Loaded loaded_status)),
         SetVolume (3/2) (Inr ())]))) = 3/2
   \<and> \<not> options_in_range (pb_options (playback (pb_run DEFAULT_PLAYBACK_OPTIONS
        [Load ''a.mp3'' (Inr ()) (Inr ()) (Inr (Loaded loaded_status)),
         SetVolume (3/2) (Inr ())])))"
  by (simp add: pb_eval)


section \<open>The AudioPlayback entity: position and progress\<close>

text \<open>
  Claim C6, as the code has it. \<^verbatim>\<open>setPosition(p)\<close> stores
  \<^verbatim>\<open>Math.max(0, Math.min(p, durationMillis))\<close>. When neither \<open>p\<close> nor the duration is
  \<^verbatim>\<open>NaN\<close> and the duration is not negative, the stored value lies between 0 and the
  duration; for finite numbers it is \<open>max 0 (min p duration)\<close>, which is what the entity
  above stores. With a duration of 10000, the arguments -5, 15000 and 3000 store 0,
  10000 and 3000.
\<close>

theorem setPosition_clamps_in_range:
  "(p \<noteq> NaN \<and> d \<noteq> NaN \<and> js_le (Finite 0) d \<longrightarrow>
      js_le (Finite 0) (setPosition_stored p d) \<and> js_le (setPosition_stored p d) d)
   \<and> setPosition_stored (Finite x) (Finite y) = Finite (max 0 (min x y))
   \<and> Finite (pb_position (AudioPlayback_setPosition x s))
        = setPosition_stored (Finite x) (Finite (pb_duration s))
   \<and> pb_position (AudioPlayback_setPosition x s) = max 0 (min x (pb_duration s))
   \<and> (0 \<le> pb_duration s \<longrightarrow>
        0 \<le> pb_position (AudioPlayback_setPosition x s)
        \<and> pb_position (AudioPlayback_setPosition x s) \<le> pb_duration s)
   \<and> pb_position (AudioPlayback_setPosition (- 5) (s\<lparr>pb_duration := 10000\<rparr>)) = 0
   \<and> pb_position (AudioPlayback_setPosition 15000 (s\<lparr>pb_duration := 10000\<rparr>)) = 10000
   \<and> pb_position (AudioPlayback_setPosition 3000 (s\<lparr>pb_duration := 10000\<rparr>)) = 3000"
proof -
  have range: "p \<noteq> NaN \<and> d \<noteq> NaN \<and> js_le (Finite 0) d \<longrightarrow>
      js_le (Finite 0) (setPosition_stored p d) \<and> js_le (setPosition_stored p d) d"
    by (cases p; cases d) (auto simp: setPosition_stored_def Math_min_def Math_max_def)
  have finite: "setPosition_stored (Finite x) (Finite y) = Finite (max 0 (min x y))"
    by (auto simp: setPosition_stored_def Math_min_def Math_max_def max_def min_def)
  have entity: "pb_position (AudioPlayback_setPosition x s) = max 0 (min x (pb_duration s))"
    by (simp add: AudioPlayback_setPosition_def)
  have link: "Finite (pb_position (AudioPlayback_setPosition x s))
        = setPosition_stored (Finite x) (Finite (pb_duration s))"
    unfolding entity
    by (auto simp: setPosition_stored_def Math_min_def Math_max_def max_def min_def)
  have bounds: "0 \<le> pb_duration s \<longrightarrow>
        0 \<le> pb_position (AudioPlayback_setPosition x s)
        \<and> pb_position (AudioPlayback_setPosition x s) \<le> pb_duration s"
    by (simp add: AudioPlayback_setPosition_def)
  have examples:
    "pb_position (AudioPlayback_setPosition (- 5) (s\<lparr>pb_duration := 10000\<rparr>)) = 0"
    "pb_position (AudioPlayback_setPosition 15000 (s\<lparr>pb_duration := 10000\<rparr>)) = 10000"
    "pb_position (AudioPlayback_setPosition 3000 (s\<lparr>pb_duration := 10000\<rparr>)) = 3000"
    by (simp_all add: AudioPlayback_setPosition_def)
  from range finite link entity bounds examples show ?thesis by blast
qed

text \<open>
  The theorem at a duration of 10000: the arguments 15000 and \<^verbatim>\<open>-Infinity\<close>, and the
  entity with the default options.
\<close>

theorem setPosition_clamps_in_range_witness:
  "Finite 15000 \<noteq> NaN \<and> Finite 10000 \<noteq> NaN \<and> js_le (Finite 0) (Finite 10000)
   \<and> setPosition_stored (Finite 15000) (Finite 10000) = Finite 10000
   \<and> js_le (setPosition_stored (Finite 15000) (Finite 10000)) (Finite 10000)
   \<and> js_le (Finite 0) (setPosition_stored NegInfinity (Finite 10000))
   \<and> 0 \<le> pb_duration (AudioPlayback_setDuration 10000 (new_AudioPlayback DEFAULT_PLAYBACK_OPTIONS))
   \<and> pb_position (AudioPlayback_setPosition 15000
        (AudioPlayback_setDuration 10000 (new_AudioPlayback DEFAULT_PLAYBACK_OPTIONS)))
       \<le> pb_duration (AudioPlayback_setDuration 10000 (new_AudioPlayback DEFAULT_PLAYBACK_OPTIONS))"
proof -
  let ?s = "AudioPlayback_setDuration 10000 (new_AudioPlayback DEFAULT_PLAYBACK_OPTIONS)"
  have h: "Finite 15000 \<noteq> NaN \<and> Finite 10000 \<noteq> NaN \<and> js_le (Finite 0) (Finite 10000)"
    by simp
  have h': "NegInfinity \<noteq> NaN \<and> Finite 10000 \<noteq> NaN \<and> js_le (Finite 0) (Finite 10000)"
    by simp
  have d: "0 \<le> pb_duration ?s"
    by (simp add: AudioPlayback_setDuration_def new_AudioPlayback_def)
  have a: "js_le (setPosition_stored (Finite 15000) (Finite 10000)) (Finite 10000)"
    using setPosition_clamps_in_range[where p = "Finite 15000" and d = "Finite 10000"] h by blast
  have b: "setPosition_stored (Finite 15000) (Finite 10000) = Finite (max 0 (min 15000 10000))"
    using setPosition_clamps_in_range[where x = 15000 and y = 10000] by blast
  have c: "js_le (Finite 0) (setPosition_stored NegInfinity (Finite 10000))"
    using setPosition_clamps_in_range[where p = NegInfinity and d = "Finite 10000"] h' by blast
  have e: "pb_position (AudioPlayback_setPosition 15000 ?s) \<le> pb_duration ?s"
    using setPosition_clamps_in_range[where x = 15000 and s = ?s] d by blast
  from b have b': "setPosition_stored (Finite 15000) (Finite 10000) = Finite 10000" by simp
  from h d a b' c e show ?thesis by blast
qed

text \<open>
  The claim as written fails for two inputs. \<^verbatim>\<open>setPosition(NaN)\<close> stores \<^verbatim>\<open>NaN\<close>, which
  is neither at least 0 nor at most the duration. With a duration of -1,
  \<^verbatim>\<open>setPosition(5)\<close> stores 0, which is above the duration.
\<close>

theorem setPosition_nan_counterexample:
  "setPosition_stored NaN (Finite 10000) = NaN
   \<and> \<not> js_le (Finite 0) (setPosition_stored NaN (Finite 10000))
   \<and> \<not> js_le (setPosition_stored NaN (Finite 10000)) (Finite 10000)
   \<and> setPosition_stored (Finite 5) (Finite (- 1)) = Finite 0
   \<and> \<not> js_le (setPosition_stored (Finite 5) (Finite (- 1))) (Finite (- 1))
   \<and> pb_position (AudioPlayback_setPosition 5
        (AudioPlayback_setDuration (- 1) (new_AudioPlayback DEFAULT_PLAYBACK_OPTIONS))) = 0"
  by (simp add: setPosition_stored_def Math_min_def Math_max_def AudioPlayback_setPosition_def
      AudioPlayback_setDuration_def new_AudioPlayback_def)

text \<open>
  Claim C7. The derived progress is 0 when the duration is 0 (where the quotient itself
  would be \<^verbatim>\<open>NaN\<close> or an infinity), and the quotient of position and duration otherwise.
  This holds for every position, in particular for \<open>0 \<le> position \<le> duration\<close>.
\<close>

theorem progress_value:
  "AudioPlayback_progress p =
     (if pb_duration p = 0 then Finite 0 else Finite (pb_position p / pb_duration p))"
  by (simp add: AudioPlayback_progress_def js_div_def)


section \<open>The static services: passive queries\<close>

text \<open>
  Claim C8. \<^verbatim>\<open>getStatus\<close> and \<^verbatim>\<open>getPermissionStatus\<close> return to their caller
  whatever the native call does: neither ever throws. When the native call throws,
  \<^verbatim>\<open>getStatus\<close> returns \<^verbatim>\<open>null\<close> and \<^verbatim>\<open>getPermissionStatus\<close> returns
  \<^verbatim>\<open>'denied'\<close>.
\<close>

theorem passive_queries_never_throw:
  "(\<exists>r. StaticPlaybackService_getStatus sound native_status = Inr r)
   \<and> StaticPlaybackService_getStatus sound (Inl e) = Inr None
   \<and> (\<exists>r. StaticRecordingService_getPermissionStatus native_permissions = Inr r)
   \<and> StaticRecordingService_getPermissionStatus (Inl e) = Inr DENIED"
  by (auto simp: StaticPlaybackService_getStatus_def StaticRecordingService_getPermissionStatus_def
      try_catch_def split: option.splits sum.splits)


section \<open>Duration formatting\<close>

lemma nat_digits_nonempty: "nat_digits n \<noteq> []"
  by (subst nat_digits.simps) simp

lemma nat_digits_small: "n < 10 \<Longrightarrow> nat_digits n = [digit_char n]"
  by (subst nat_digits.simps) simp

lemma nat_digits_two:
  "10 \<le> n \<Longrightarrow> n < 100 \<Longrightarrow> nat_digits n = [digit_char (n div 10), digit_char (n mod 10)]"
  by (subst nat_digits.simps) (simp add: nat_digits_small)

lemma length_nat_digits:
  assumes "10 \<le> n"
  shows "2 \<le> length (nat_digits n)"
proof -
  from assms have "nat_digits n = nat_digits (n div 10) @ [digit_char (n mod 10)]"
    by (subst nat_digits.simps) simp
  moreover have "1 \<le> length (nat_digits (n div 10))"
    using nat_digits_nonempty[of "n div 10"] by (cases "nat_digits (n div 10)") auto
  ultimately show ?thesis by simp
qed

lemma padStart_nat_digits: "padStart 2 CHR ''0'' (nat_digits n) = two_digits n"
proof (cases "n < 10")
  case True
  then show ?thesis
    by (simp add: padStart_def two_digits_def nat_digits_small digit_char_def)
next
  case False
  then have "2 \<le> length (nat_digits n)" by (simp add: length_nat_digits)
  then have "padStart 2 CHR ''0'' (nat_digits n) = nat_digits n" by (simp add: padStart_def)
  with False show ?thesis by (simp add: two_digits_def nat_digits_two)
qed

lemma pad_toString: "0 \<le> k \<Longrightarrow> padStart 2 CHR ''0'' (Number_toString k) = two_digits (nat k)"
  by (simp add: Number_toString_def padStart_nat_digits)

lemma formatDuration_nonneg:
  assumes "0 \<le> ms"
  shows "formatDuration ms =
     two_digits (nat (floor (ms / 1000)) div 60) @ '':'' @
     two_digits (nat (floor (ms / 1000)) mod 60)"
proof -
  define k where "k = floor (ms / 1000)"
  have k: "0 \<le> k" using assms by (simp add: k_def)
  then have d: "0 \<le> k div 60" and m: "0 \<le> k mod 60"
    by (simp_all add: pos_imp_zdiv_nonneg_iff)
  have "formatDuration ms = two_digits (nat (k div 60)) @ '':'' @ two_digits (nat (k mod 60))"
    using k d m by (simp add: formatDuration_def Let_def js_rem_def pad_toString k_def[symmetric])
  then show ?thesis using k by (simp add: nat_div_distrib nat_mod_distrib k_def)
qed

lemma hours_positive_iff:
  "(0 < floor (ms / 1000) div 3600) = (3600000 \<le> (ms::real))"
proof -
  have "(0 < floor (ms / 1000) div 3600) = (3600 \<le> floor (ms / 1000))"
    by (simp add: pos_imp_zdiv_pos_iff)
  also have "\<dots> = (3600 \<le> ms / 1000)" by (simp add: le_floor_iff)
  also have "\<dots> = (3600000 \<le> ms)" by (simp add: le_divide_eq)
  finally show ?thesis .
qed

lemma formatDurationLong_hours:
  assumes "3600000 \<le> ms"
  shows "formatDurationLong ms =
           two_digits (nat (floor (ms / 1000)) div 3600) @ '':'' @
           two_digits (nat (floor (ms / 1000)) mod 3600 div 60) @ '':'' @
           two_digits (nat (floor (ms / 1000)) mod 60)"
proof -
  define k where "k = floor (ms / 1000)"
  have k: "0 \<le> k" using assms by (simp add: k_def)
  have h: "0 < k div 3600" using assms hours_positive_iff[of ms] by (simp add: k_def)
  have m: "0 \<le> k mod 3600 div 60" and s: "0 \<le> k mod 60"
    by (simp_all add: pos_imp_zdiv_nonneg_iff)
  have "formatDurationLong ms = two_digits (nat (k div 3600)) @ '':'' @
           two_digits (nat (k mod 3600 div 60)) @ '':'' @ two_digits (nat (k mod 60))"
    using k h m s
    by (simp add: formatDurationLong_def Let_def js_rem_def pad_toString k_def[symmetric])
  then show ?thesis using k by (simp add: nat_div_distrib nat_mod_distrib k_def)
qed

lemma formatDurationLong_short:
  assumes "0 \<le> ms" and "ms < 3600000"
  shows "formatDurationLong ms = formatDuration ms"
proof -
  define k where "k = floor (ms / 1000)"
  have k: "0 \<le> k" using assms by (simp add: k_def)
  have z: "\<not> 0 < k div 3600" using assms hours_positive_iff[of ms] by (simp add: k_def)
  then have "k < 3600" using k by (simp add: pos_imp_zdiv_pos_iff)
  then have "k mod 3600 = k" using k by simp
  then show ?thesis using z
    by (simp add: formatDurationLong_def formatDuration_def Let_def js_rem_def k_def[symmetric])
qed

text \<open>
  Claim C9. \<^verbatim>\<open>formatDuration(125000)\<close> is \<^verbatim>\<open>02:05\<close> and
  \<^verbatim>\<open>formatDurationLong(3725000)\<close> is \<^verbatim>\<open>01:02:05\<close>. For a duration \<open>ms \<ge> 0\<close> with
  \<open>t\<close> whole seconds, \<^verbatim>\<open>formatDuration\<close> is the minutes \<open>t div 60\<close> and the seconds
  \<open>t mod 60\<close>, each zero-padded to two digits, around a colon;
  \<^verbatim>\<open>formatDurationLong\<close> is hours, minutes and seconds in that layout when the duration
  is at least one hour (3600000 ms) and equals \<^verbatim>\<open>formatDuration\<close> otherwise.
\<close>

theorem formatDuration_layout:
  "formatDuration 125000 = ''02:05''
   \<and> formatDurationLong 3725000 = ''01:02:05''
   \<and> (0 \<le> ms \<longrightarrow>
        formatDuration ms =
          two_digits (nat (floor (ms / 1000)) div 60) @ '':'' @
          two_digits (nat (floor (ms / 1000)) mod 60))
   \<and> (3600000 \<le> ms \<longrightarrow>
        formatDurationLong ms =
          two_digits (nat (floor (ms / 1000)) div 3600) @ '':'' @
          two_digits (nat (floor (ms / 1000)) mod 3600 div 60) @ '':'' @
          two_digits (nat (floor (ms / 1000)) mod 60))
   \<and> (0 \<le> ms \<and> ms < 3600000 \<longrightarrow> formatDurationLong ms = formatDuration ms)"
proof -
  have a: "formatDuration 125000 = ''02:05''"
    by (simp add: formatDuration_def Let_def js_rem_def pad_toString two_digits_def digit_char_def)
  have b: "formatDurationLong 3725000 = ''01:02:05''"
    by (simp add: formatDurationLong_def Let_def js_rem_def pad_toString two_digits_def
        digit_char_def)
  from a b formatDuration_nonneg formatDurationLong_hours formatDurationLong_short
  show ?thesis by blast
qed

text \<open>The theorem at 754000 ms (12:34) and at 45296000 ms (12:34:56).\<close>

theorem formatDuration_layout_witness:
  "(0::real) \<le> 754000 \<and> (754000::real) < 3600000
   \<and> formatDuration 754000 = ''12:34''
   \<and> formatDurationLong 754000 = ''12:34''
   \<and> (3600000::real) \<le> 45296000
   \<and> formatDurationLong 45296000 = ''12:34:56''"
proof -
  have h1: "(0::real) \<le> 754000" and h2: "(754000::real) < 3600000"
    and h3: "(3600000::real) \<le> 45296000"
    by simp_all
  have a: "formatDuration 754000 =
      two_digits (nat (floor (754000 / 1000 :: real)) div 60) @ '':'' @
      two_digits (nat (floor (754000 / 1000 :: real)) mod 60)"
    using formatDuration_layout[of 754000] h1 by blast
  have b: "formatDurationLong 754000 = formatDuration 754000"
    using formatDuration_layout[of 754000] h1 h2 by blast
  have c: "formatDurationLong 45296000 =
      two_digits (nat (floor (45296000 / 1000 :: real)) div 3600) @ '':'' @
      two_digits (nat (floor (45296000 / 1000 :: real)) mod 3600 div 60) @ '':'' @
      two_digits (nat (floor (45296000 / 1000 :: real)) mod 60)"
    using formatDuration_layout[of 45296000] h3 by blast
  have a': "formatDuration 754000 = ''12:34''"
    unfolding a by (simp add: two_digits_def digit_char_def)
  have c': "formatDurationLong 45296000 = ''12:34:56''"
    unfolding c by (simp add: two_digits_def digit_char_def)
  from h1 h2 h3 a' b c' show ?thesis by simp
qed


section \<open>The AudioRecording entity: toResult and toMetadata\<close>

text \<open>
  Claim C10, as the code has it. \<^verbatim>\<open>toResult()\<close> and \<^verbatim>\<open>toMetadata()\<close> throw
  \<^verbatim>\<open>No recording URI available\<close> exactly when the uri is \<^verbatim>\<open>null\<close> or the empty
  string (the guard is \<^verbatim>\<open>!this._uri\<close>). With a non-empty uri \<^verbatim>\<open>toResult()\<close> returns
  the uri, the duration and the current state. Neither method changes the session.
\<close>

theorem toResult_toMetadata_guard:
  "isl (fst (AudioRecording_toResult r)) = (rec_uri r = None \<or> rec_uri r = Some [])
   \<and> isl (fst (AudioRecording_toMetadata now r)) = (rec_uri r = None \<or> rec_uri r = Some [])
   \<and> (fst (AudioRecording_toResult r) = Inl (JsError ''No recording URI available''))
        = (rec_uri r = None \<or> rec_uri r = Some [])
   \<and> (fst (AudioRecording_toMetadata now r) = Inl (JsError ''No recording URI available''))
        = (rec_uri r = None \<or> rec_uri r = Some [])
   \<and> fst (AudioRecording_toResult (r\<lparr>rec_uri := Some (c # cs)\<rparr>))
        = Inr \<lparr> rr_uri = c # cs, rr_duration = rec_duration r, rr_status = rec_state r \<rparr>
   \<and> snd (AudioRecording_toResult r) = r
   \<and> snd (AudioRecording_toMetadata now r) = r"
  by (auto simp: AudioRecording_toResult_def AudioRecording_toMetadata_def split: option.splits)

text \<open>
  The claim as written fails: after \<^verbatim>\<open>setUri('')\<close> the uri is not \<^verbatim>\<open>null\<close>, and both
  methods throw.
\<close>

theorem toResult_empty_uri_counterexample:
  "rec_uri (AudioRecording_setUri [] (new_AudioRecording DEFAULT_RECORDING_CONFIG)) \<noteq> None
   \<and> fst (AudioRecording_toResult
        (AudioRecording_setUri [] (new_AudioRecording DEFAULT_RECORDING_CONFIG)))
       = Inl (JsError ''No recording URI available'')
   \<and> fst (AudioRecording_toMetadata 0
        (AudioRecording_setUri [] (new_AudioRecording DEFAULT_RECORDING_CONFIG)))
       = Inl (JsError ''No recording URI available'')"
  by (simp add: AudioRecording_toResult_def AudioRecording_toMetadata_def
      AudioRecording_setUri_def new_AudioRecording_def)

end
